theory Spec2Isabelle
  imports Main "HOL-Library.Word"
begin

unbundle bit_operations_syntax

section \<open>Identifier and reference model\<close>

text \<open>
  The package \<open>otel\<close> (identifiers, span references, the context slots) is used by the
  two source files but is not among them. Its declarations are modelled from the
  specification, sections 3 and 4.1. A Go \<open>[16]byte\<close> / \<open>[8]byte\<close> array is a list of
  bytes; the fixed width is the predicate \<open>wellformed\<close> below.
\<close>

type_synonym byte = "8 word"

record SpanReference =
  TraceID :: "byte list"
  SpanID :: "byte list"
  TraceFlags :: byte

text \<open>Modelled from the spec: the Go zero value \<open>otel.SpanReference{}\<close> ("Invalid").\<close>

definition emptySpanReference :: SpanReference where
  "emptySpanReference = \<lparr>TraceID = replicate 16 0, SpanID = replicate 8 0, TraceFlags = 0\<rparr>"

text \<open>Modelled from the spec: \<open>FlagsSampled\<close>, "bit 0 = sampled".\<close>

definition FlagsSampled :: byte where
  "FlagsSampled = 0x01"

text \<open>Modelled from the spec: \<open>TraceID.IsValid\<close> and \<open>SpanID.IsValid\<close>, "true iff not all-zero".\<close>

definition ID_IsValid :: "byte list \<Rightarrow> bool" where
  "ID_IsValid t \<longleftrightarrow> (\<exists>b \<in> set t. b \<noteq> 0)"

text \<open>Modelled from the spec: \<open>SpanReference.IsValid\<close>, "true iff both components valid".\<close>

definition IsValid :: "SpanReference \<Rightarrow> bool" where
  "IsValid sr \<longleftrightarrow> ID_IsValid (TraceID sr) \<and> ID_IsValid (SpanID sr)"

text \<open>The array widths of the Go types, which a list does not carry.\<close>

definition wellformed :: "SpanReference \<Rightarrow> bool" where
  "wellformed sr \<longleftrightarrow> length (TraceID sr) = 16 \<and> length (SpanID sr) = 8"

section \<open>Ambient context and carrier\<close>

text \<open>
  Modelled from the spec: the ambient context, "carrying at most one current span
  reference and at most one remote span reference", and the opaque tracestate value that
  the propagator stores under its private key \<open>tracestateKey\<close>. Setting a slot returns a new
  context.
\<close>

record Ctx =
  currentSpan :: "SpanReference option"
  remoteSpanReference :: "SpanReference option"
  tracestateValue :: "string option"

text \<open>Modelled from the spec: \<open>otel.SpanFromContext(ctx).SpanReference()\<close>, "Invalid if absent".\<close>

definition SpanFromContext :: "Ctx \<Rightarrow> SpanReference" where
  "SpanFromContext ctx = (case currentSpan ctx of None \<Rightarrow> emptySpanReference | Some sr \<Rightarrow> sr)"

text \<open>Modelled from the spec: \<open>otel.RemoteSpanReferenceFromContext\<close>, "Invalid if absent".\<close>

definition RemoteSpanReferenceFromContext :: "Ctx \<Rightarrow> SpanReference" where
  "RemoteSpanReferenceFromContext ctx =
     (case remoteSpanReference ctx of None \<Rightarrow> emptySpanReference | Some sr \<Rightarrow> sr)"

text \<open>Modelled from the spec: \<open>otel.ContextWithRemoteSpanReference\<close>.\<close>

definition ContextWithRemoteSpanReference :: "Ctx \<Rightarrow> SpanReference \<Rightarrow> Ctx" where
  "ContextWithRemoteSpanReference ctx remote = ctx\<lparr>remoteSpanReference := Some remote\<rparr>"

text \<open>
  Modelled from the spec: the carrier abstraction \<open>otel.TextMapCarrier\<close>,
  \<open>Get(key) -> string\<close> and \<open>Set(key, value)\<close>; a key never set reads as the empty string.
\<close>

type_synonym TextMapCarrier = "string \<rightharpoonup> string"

definition carrier_Get :: "TextMapCarrier \<Rightarrow> string \<Rightarrow> string" where
  "carrier_Get carrier key = (case carrier key of None \<Rightarrow> [] | Some v \<Rightarrow> v)"

definition carrier_Set :: "TextMapCarrier \<Rightarrow> string \<Rightarrow> string \<Rightarrow> TextMapCarrier" where
  "carrier_Set carrier key v = carrier(key \<mapsto> v)"

section \<open>Hexadecimal text\<close>

text \<open>
  Go's \<open>encoding/hex\<close>: \<open>EncodeToString\<close> writes \<open>hextable[v>>4]\<close> and \<open>hextable[v&0x0f]\<close>
  for every byte; \<open>DecodeString\<close> reads pairs of digits of either case and fails on an odd
  length or on any other character.
\<close>

definition hextable :: string where
  "hextable = ''0123456789abcdef''"

definition encodeByte :: "byte \<Rightarrow> string" where
  "encodeByte v = [hextable ! unat (drop_bit 4 v), hextable ! unat (v AND 0x0f)]"

definition EncodeToString :: "byte list \<Rightarrow> string" where
  "EncodeToString src = concat (map encodeByte src)"

definition fromHexChar :: "char \<Rightarrow> byte option" where
  "fromHexChar c =
     (let n = (of_char c :: nat) in
      if 48 \<le> n \<and> n \<le> 57 then Some (of_nat (n - 48))
      else if 97 \<le> n \<and> n \<le> 102 then Some (of_nat (n - 97 + 10))
      else if 65 \<le> n \<and> n \<le> 70 then Some (of_nat (n - 65 + 10))
      else None)"

fun DecodeString :: "string \<Rightarrow> byte list option" where
  "DecodeString [] = Some []"
| "DecodeString [p] = None"
| "DecodeString (p # q # s) =
     (case fromHexChar p of
        None \<Rightarrow> None
      | Some a \<Rightarrow>
          (case fromHexChar q of
             None \<Rightarrow> None
           | Some b \<Rightarrow>
               (case DecodeString s of
                  None \<Rightarrow> None
                | Some bs \<Rightarrow> Some ((push_bit 4 a OR b) # bs))))"

text \<open>
  Modelled from the spec: \<open>otel.TraceIDFromHex\<close> and \<open>otel.SpanIDFromHex\<close>, which "must
  fail on odd-length input, non-hex characters, or wrong fixed width (32 hex chars for
  TraceID, 16 for SpanID)".
\<close>

definition TraceIDFromHex :: "string \<Rightarrow> byte list option" where
  "TraceIDFromHex h = (if length h \<noteq> 32 then None else DecodeString h)"

definition SpanIDFromHex :: "string \<Rightarrow> byte list option" where
  "SpanIDFromHex h = (if length h \<noteq> 16 then None else DecodeString h)"

text \<open>
  \<open>fmt.Sprintf\<close> with the verb \<open>%.2x\<close> on a value below 256 (the constant
  \<open>supportedVersion\<close> and a flags byte): two lowercase hex digits.
\<close>

definition Sprintf_02x :: "byte \<Rightarrow> string" where
  "Sprintf_02x v = encodeByte v"

text \<open>
  Modelled from the spec: \<open>TraceID.String\<close> and \<open>SpanID.String\<close>, which the verb \<open>%s\<close>
  calls: "traceid: 32-hex-lowercase", "spanid: 16-hex-lowercase".
\<close>

definition ID_String :: "byte list \<Rightarrow> string" where
  "ID_String t = EncodeToString t"

section \<open>The trace-context propagator\<close>

definition supportedVersion :: byte where
  "supportedVersion = 0"

definition maxVersion :: nat where
  "maxVersion = 254"

definition traceparentHeader :: string where
  "traceparentHeader = ''traceparent''"

definition tracestateHeader :: string where
  "tracestateHeader = ''tracestate''"

text \<open>The character class \<open>[0-9a-f]\<close> of \<open>traceCtxRegExp\<close>.\<close>

definition lowerHex :: "char \<Rightarrow> bool" where
  "lowerHex c \<longleftrightarrow>
     (let n = (of_char c :: nat) in (48 \<le> n \<and> n \<le> 57) \<or> (97 \<le> n \<and> n \<le> 102))"

text \<open>
  \<open>traceCtxRegExp.FindStringSubmatch\<close> for the anchored expression
  \<^verbatim>\<open>^([0-9a-f]{2})-([a-f0-9]{32})-([a-f0-9]{16})-([a-f0-9]{2})(?:-.*)?$\<close>.
  Every group has a fixed width, so the groups sit at fixed offsets. The optional tail is a
  dash followed by any characters but a newline (Go's \<open>.\<close>), up to the end of the text
  (Go's \<open>$\<close>). The result is the empty list when there is no match, and otherwise the whole
  match followed by the four capturing groups; the tail is a non-capturing group and adds
  no element.
\<close>

definition FindStringSubmatch :: "string \<Rightarrow> string list" where
  "FindStringSubmatch h =
     (let version = take 2 h;
          traceID = take 32 (drop 3 h);
          spanID = take 16 (drop 36 h);
          traceFlags = take 2 (drop 53 h);
          rest = drop 55 h
      in if length version = 2 \<and> list_all lowerHex version
            \<and> take 1 (drop 2 h) = ''-''
            \<and> length traceID = 32 \<and> list_all lowerHex traceID
            \<and> take 1 (drop 35 h) = ''-''
            \<and> length spanID = 16 \<and> list_all lowerHex spanID
            \<and> take 1 (drop 52 h) = ''-''
            \<and> length traceFlags = 2 \<and> list_all lowerHex traceFlags
            \<and> (rest = [] \<or> (take 1 rest = ''-'' \<and> list_all (\<lambda>c. c \<noteq> CHR 0x0A) (drop 1 rest)))
         then [h, version, traceID, spanID, traceFlags]
         else [])"

text \<open>
  A Go index expression or slice expression out of range panics. The model makes the panic
  a value, so that a function which cannot panic is proved not to.
\<close>

datatype error = IndexOutOfRange

definition index :: "'a list \<Rightarrow> nat \<Rightarrow> error + 'a" where
  "index xs i = (if i < length xs then Inr (xs ! i) else Inl IndexOutOfRange)"

definition slice_to :: "'a list \<Rightarrow> nat \<Rightarrow> error + 'a list" where
  "slice_to xs n = (if n \<le> length xs then Inr (take n xs) else Inl IndexOutOfRange)"

definition bind :: "error + 'a \<Rightarrow> ('a \<Rightarrow> error + 'b) \<Rightarrow> error + 'b" where
  "bind m f = (case m of Inl e \<Rightarrow> Inl e | Inr x \<Rightarrow> f x)"

text \<open>
  \<open>TraceContext.extract\<close> (primed here, \<open>extract\<close> being a keyword). The source names the reference under construction both \<open>sc\<close>
  and \<open>sr\<close>; they are one variable here.
\<close>

definition extract' :: "TextMapCarrier \<Rightarrow> error + SpanReference" where
  "extract' carrier =
     (let h = carrier_Get carrier traceparentHeader in
      if h = [] then Inr emptySpanReference
      else let matches = FindStringSubmatch h in
      if length matches = 0 then Inr emptySpanReference
      else if length matches < 5 then Inr emptySpanReference
      else bind (index matches 1) (\<lambda>m1.
      if length m1 \<noteq> 2 then Inr emptySpanReference
      else case DecodeString m1 of None \<Rightarrow> Inr emptySpanReference | Some ver \<Rightarrow>
      bind (index ver 0) (\<lambda>ver0.
      let version = unat ver0 in
      if version > maxVersion then Inr emptySpanReference
      else if version = 0 \<and> length matches \<noteq> 5 then Inr emptySpanReference
      else bind (index matches 2) (\<lambda>m2.
      if length m2 \<noteq> 32 then Inr emptySpanReference
      else bind (slice_to m2 32) (\<lambda>m2s.
      case TraceIDFromHex m2s of None \<Rightarrow> Inr emptySpanReference | Some tid \<Rightarrow>
      bind (index matches 3) (\<lambda>m3.
      if length m3 \<noteq> 16 then Inr emptySpanReference
      else case SpanIDFromHex m3 of None \<Rightarrow> Inr emptySpanReference | Some sid \<Rightarrow>
      bind (index matches 4) (\<lambda>m4.
      if length m4 \<noteq> 2 then Inr emptySpanReference
      else case DecodeString m4 of None \<Rightarrow> Inr emptySpanReference | Some opts \<Rightarrow>
      if length opts < 1 then Inr emptySpanReference
      else bind (index opts 0) (\<lambda>opts0.
      if version = 0 \<and> opts0 > 2 then Inr emptySpanReference
      else let sc = \<lparr>TraceID = tid, SpanID = sid, TraceFlags = opts0 AND FlagsSampled\<rparr> in
      if \<not> IsValid sc then Inr emptySpanReference
      else Inr sc))))))))"

text \<open>\<open>TraceContext.Extract\<close>.\<close>

definition Extract :: "Ctx \<Rightarrow> TextMapCarrier \<Rightarrow> error + Ctx" where
  "Extract ctx carrier =
     (let state = carrier_Get carrier tracestateHeader;
          ctx1 = (if state \<noteq> [] then ctx\<lparr>tracestateValue := Some state\<rparr> else ctx)
      in bind (extract' carrier) (\<lambda>sc.
           if \<not> IsValid sc then Inr ctx1
           else Inr (ContextWithRemoteSpanReference ctx1 sc)))"

text \<open>\<open>TraceContext.Inject\<close>; the carrier is mutated in place by the source and returned here.\<close>

definition Inject :: "Ctx \<Rightarrow> TextMapCarrier \<Rightarrow> TextMapCarrier" where
  "Inject ctx carrier =
     (let carrier1 = (case tracestateValue ctx of
                        Some state \<Rightarrow> carrier_Set carrier tracestateHeader state
                      | None \<Rightarrow> carrier);
          sc = SpanFromContext ctx
      in if \<not> IsValid sc then carrier1
         else carrier_Set carrier1 traceparentHeader
                (Sprintf_02x supportedVersion @ ''-'' @ ID_String (TraceID sc) @ ''-'' @
                 ID_String (SpanID sc) @ ''-'' @ Sprintf_02x (TraceFlags sc AND FlagsSampled)))"

section \<open>Parent resolution\<close>

text \<open>Modelled from the spec: \<open>label.KeyValue\<close> as built by \<open>label.String(key, value)\<close>.\<close>

record KeyValue =
  Key :: string
  Value :: string

definition label_String :: "string \<Rightarrow> string \<Rightarrow> KeyValue" where
  "label_String k v = \<lparr>Key = k, Value = v\<rparr>"

text \<open>Modelled from the spec: \<open>otel.Link\<close>, a reference and an ordered sequence of attributes.\<close>

record Link =
  LinkSpanReference :: SpanReference
  Attributes :: "KeyValue list"

definition addLinkIfValid :: "Link list \<Rightarrow> SpanReference \<Rightarrow> string \<Rightarrow> Link list" where
  "addLinkIfValid links sr kind =
     (if \<not> IsValid sr then links
      else links @ [\<lparr>LinkSpanReference = sr,
                     Attributes = [label_String ''ignored-on-demand'' kind]\<rparr>])"

definition GetSpanReferenceAndLinks :: "Ctx \<Rightarrow> bool \<Rightarrow> SpanReference \<times> bool \<times> Link list" where
  "GetSpanReferenceAndLinks ctx ignoreContext =
     (let lsctx = SpanFromContext ctx;
          rsctx = RemoteSpanReferenceFromContext ctx
      in if ignoreContext then
           (let links = addLinkIfValid [] lsctx ''current'';
                links = addLinkIfValid links rsctx ''remote''
            in (emptySpanReference, False, links))
         else if IsValid lsctx then (lsctx, False, [])
         else if IsValid rsctx then (rsctx, True, [])
         else (emptySpanReference, False, []))"

section \<open>The specification's rejection rules\<close>

text \<open>
  The \<open>traceparent\<close> values that section 4.4 of the specification rejects, read off the text
  of the header by position and independently of the decoding steps of \<open>extract'\<close>:
  \<^item> step 3, a mismatch with the grammar: a truncated value or a missing dash-separated
    group, a field of the wrong width, a character outside \<open>[0-9a-f]\<close> in a field;
  \<^item> step 4, the version \<open>ff\<close>;
  \<^item> step 5, for version \<open>00\<close>, anything beyond the four required groups;
  \<^item> step 6, an all-zero trace or span identifier;
  \<^item> step 7, for version \<open>00\<close>, a flags field whose value exceeds 2.
\<close>

definition spec_malformed :: "string \<Rightarrow> bool" where
  "spec_malformed h \<longleftrightarrow>
     length h < 55
     \<or> take 1 (drop 2 h) \<noteq> ''-'' \<or> take 1 (drop 35 h) \<noteq> ''-'' \<or> take 1 (drop 52 h) \<noteq> ''-''
     \<or> (length h > 55 \<and> take 1 (drop 55 h) \<noteq> ''-'')
     \<or> \<not> list_all lowerHex (take 2 h)
     \<or> \<not> list_all lowerHex (take 32 (drop 3 h))
     \<or> \<not> list_all lowerHex (take 16 (drop 36 h))
     \<or> \<not> list_all lowerHex (take 2 (drop 53 h))
     \<or> take 2 h = ''ff''
     \<or> (take 2 h = ''00'' \<and> length h > 55)
     \<or> take 32 (drop 3 h) = replicate 32 (CHR ''0'')
     \<or> take 16 (drop 36 h) = replicate 16 (CHR ''0'')
     \<or> (take 2 h = ''00'' \<and> take 2 (drop 53 h) \<notin> {''00'', ''01'', ''02''})"

section \<open>Concrete inputs\<close>

text \<open>
  The identifiers of the specification's example header
  \<open>00-4bf92f3577b34da6a3ce929d0e0e4736-00f067aa0ba902b7-01\<close>, a second reference, the
  background context with no slot set, and a carrier holding one \<open>traceparent\<close> value.
\<close>

definition exampleTraceID :: "byte list" where
  "exampleTraceID = [0x4b, 0xf9, 0x2f, 0x35, 0x77, 0xb3, 0x4d, 0xa6,
                     0xa3, 0xce, 0x92, 0x9d, 0x0e, 0x0e, 0x47, 0x36]"

definition exampleSpanID :: "byte list" where
  "exampleSpanID = [0x00, 0xf0, 0x67, 0xaa, 0x0b, 0xa9, 0x02, 0xb7]"

definition exampleRef :: "byte \<Rightarrow> SpanReference" where
  "exampleRef flags = \<lparr>TraceID = exampleTraceID, SpanID = exampleSpanID, TraceFlags = flags\<rparr>"

definition otherRef :: SpanReference where
  "otherRef = \<lparr>TraceID = replicate 15 0 @ [0x01], SpanID = replicate 7 0 @ [0x02], TraceFlags = 0\<rparr>"

definition Background :: Ctx where
  "Background = \<lparr>currentSpan = None, remoteSpanReference = None, tracestateValue = None\<rparr>"

definition traceparentCarrier :: "string \<Rightarrow> TextMapCarrier" where
  "traceparentCarrier h = carrier_Set Map.empty traceparentHeader h"

section \<open>Properties of the hexadecimal codec\<close>

lemma hextable_digits:
  "list_all (\<lambda>n. fromHexChar (hextable ! n) = Some (of_nat n) \<and> lowerHex (hextable ! n)) [0..<16]"
  by code_simp

lemma fromHexChar_hextable: "n < 16 \<Longrightarrow> fromHexChar (hextable ! n) = Some (of_nat n)"
  using hextable_digits by (simp add: list_all_iff)

lemma lowerHex_hextable: "n < 16 \<Longrightarrow> lowerHex (hextable ! n)"
  using hextable_digits by (simp add: list_all_iff)

lemma lowerHex_fromHexChar: "lowerHex c \<Longrightarrow> \<exists>b. fromHexChar c = Some b"
  by (auto simp: lowerHex_def fromHexChar_def Let_def)

lemma hi_nibble_bound: "unat (drop_bit 4 (v::byte)) < 16"
proof -
  have "unat v < 256" using unsigned_less [of v, where ?'a = nat] by simp
  then show ?thesis by (simp add: drop_bit_eq_div unat_div)
qed

lemma lo_nibble_bound: "unat ((v::byte) AND 0x0f) < 16"
proof -
  have "v AND 15 \<le> 15"
    by (rule word_and_le1)
  then show ?thesis
    by (simp add: word_le_nat_alt)
qed

lemma mask4: "(15 :: byte) = mask 4"
  by (simp add: mask_eq_exp_minus_1)

lemma nibbles_join: "push_bit 4 (drop_bit 4 (v::byte)) OR (v AND 0x0f) = v"
  unfolding mask4
  by (rule bit_word_eqI) (auto simp: bit_simps)

lemma decode_encodeByte:
  "DecodeString (encodeByte v @ s) = (case DecodeString s of None \<Rightarrow> None | Some bs \<Rightarrow> Some (v # bs))"
  by (simp add: encodeByte_def fromHexChar_hextable hi_nibble_bound lo_nibble_bound nibbles_join
      split: option.splits)

lemma DecodeString_EncodeToString: "DecodeString (EncodeToString bs) = Some bs"
  by (induction bs) (simp_all add: EncodeToString_def decode_encodeByte)

lemma length_encodeByte: "length (encodeByte v) = 2"
  by (simp add: encodeByte_def)

lemma length_EncodeToString: "length (EncodeToString bs) = 2 * length bs"
  by (induction bs) (simp_all add: EncodeToString_def length_encodeByte)

lemma lowerHex_encodeByte: "list_all lowerHex (encodeByte v)"
  by (simp add: encodeByte_def lowerHex_hextable hi_nibble_bound lo_nibble_bound)

lemma lowerHex_EncodeToString: "list_all lowerHex (EncodeToString bs)"
  by (induction bs) (simp_all add: EncodeToString_def lowerHex_encodeByte)

lemma DecodeString_lowerHex:
  "list_all lowerHex s \<Longrightarrow> even (length s) \<Longrightarrow> \<exists>bs. DecodeString s = Some bs \<and> 2 * length bs = length s"
proof (induction s rule: DecodeString.induct)
  case 1
  then show ?case by simp
next
  case (2 p)
  then show ?case by simp
next
  case (3 p q s)
  from 3(2) obtain a b where ab: "fromHexChar p = Some a" "fromHexChar q = Some b"
    using lowerHex_fromHexChar by fastforce
  from 3(2,3) have "list_all lowerHex s" "even (length s)" by simp_all
  with 3(1) [OF ab] obtain bs where "DecodeString s = Some bs" "2 * length bs = length s"
    by blast
  with ab show ?case by simp
qed

section \<open>What \<open>extract'\<close> computes\<close>

lemma not_IsValid_empty: "\<not> IsValid emptySpanReference"
  by (simp add: IsValid_def ID_IsValid_def emptySpanReference_def)

lemma FindStringSubmatch_result:
  "FindStringSubmatch h \<noteq> [] \<Longrightarrow>
     FindStringSubmatch h = [h, take 2 h, take 32 (drop 3 h), take 16 (drop 36 h), take 2 (drop 53 h)]"
  by (simp add: FindStringSubmatch_def Let_def split: if_splits)

lemma FindStringSubmatch_groups:
  assumes "FindStringSubmatch h \<noteq> []"
  shows "length (take 2 h) = 2" and "list_all lowerHex (take 2 h)"
    and "length (take 32 (drop 3 h)) = 32" and "list_all lowerHex (take 32 (drop 3 h))"
    and "length (take 16 (drop 36 h)) = 16" and "list_all lowerHex (take 16 (drop 36 h))"
    and "length (take 2 (drop 53 h)) = 2" and "list_all lowerHex (take 2 (drop 53 h))"
  using assms by (simp_all add: FindStringSubmatch_def Let_def split: if_splits)

lemma DecodeString_one:
  assumes "length s = 2" and "list_all lowerHex s"
  shows "\<exists>v. DecodeString s = Some [v]"
proof -
  from DecodeString_lowerHex [OF assms(2)] assms(1)
  obtain bs where "DecodeString s = Some bs" "length bs = 1" by auto
  then show ?thesis by (cases bs) auto
qed

lemma extract'_unmatched:
  "FindStringSubmatch (carrier_Get carrier traceparentHeader) = [] \<Longrightarrow>
     extract' carrier = Inr emptySpanReference"
  by (simp add: extract'_def Let_def)

lemma extract'_matched:
  assumes h: "carrier_Get carrier traceparentHeader = h"
    and m: "FindStringSubmatch h \<noteq> []"
  shows "\<exists>v tid sid f.
           DecodeString (take 2 h) = Some [v] \<and>
           DecodeString (take 32 (drop 3 h)) = Some tid \<and>
           DecodeString (take 16 (drop 36 h)) = Some sid \<and>
           DecodeString (take 2 (drop 53 h)) = Some [f] \<and>
           extract' carrier =
             Inr (if unat v > 254 \<or> (v = 0 \<and> f > 2) \<or>
                     \<not> IsValid \<lparr>TraceID = tid, SpanID = sid, TraceFlags = f AND 1\<rparr>
                  then emptySpanReference
                  else \<lparr>TraceID = tid, SpanID = sid, TraceFlags = f AND 1\<rparr>)"
proof -
  note g = FindStringSubmatch_groups [OF m]
  from DecodeString_one [OF g(1,2)] obtain v where v: "DecodeString (take 2 h) = Some [v]" ..
  from DecodeString_one [OF g(7,8)] obtain f where f: "DecodeString (take 2 (drop 53 h)) = Some [f]" ..
  from DecodeString_lowerHex [OF g(4)] g(3)
  obtain tid where tid: "DecodeString (take 32 (drop 3 h)) = Some tid" by auto
  from DecodeString_lowerHex [OF g(6)] g(5)
  obtain sid where sid: "DecodeString (take 16 (drop 36 h)) = Some sid" by auto
  from g(1) have ne: "h \<noteq> []" by auto
  have "extract' carrier =
             Inr (if unat v > 254 \<or> (v = 0 \<and> f > 2) \<or>
                     \<not> IsValid \<lparr>TraceID = tid, SpanID = sid, TraceFlags = f AND 1\<rparr>
                  then emptySpanReference
                  else \<lparr>TraceID = tid, SpanID = sid, TraceFlags = f AND 1\<rparr>)"
    unfolding extract'_def h Let_def FindStringSubmatch_result [OF m]
    using ne g(1,3,5,7) v f tid sid
    by (simp add: index_def slice_to_def bind_def maxVersion_def TraceIDFromHex_def
        SpanIDFromHex_def FlagsSampled_def unat_eq_0 del: take_eq_Nil length_take)
  with v f tid sid show ?thesis by blast
qed

lemma extract'_total: "\<exists>sr. extract' carrier = Inr sr"
proof (cases "FindStringSubmatch (carrier_Get carrier traceparentHeader) = []")
  case True
  then show ?thesis by (simp add: extract'_unmatched)
next
  case False
  from extract'_matched [OF refl False] show ?thesis by blast
qed

lemma Extract_rejected:
  "extract' carrier = Inr emptySpanReference \<Longrightarrow>
     Extract ctx carrier =
       Inr (if carrier_Get carrier tracestateHeader \<noteq> []
            then ctx\<lparr>tracestateValue := Some (carrier_Get carrier tracestateHeader)\<rparr> else ctx)"
  by (simp add: Extract_def bind_def not_IsValid_empty Let_def)

lemma Extract_rejected_slots:
  assumes "extract' carrier = Inr emptySpanReference"
  shows "\<exists>ctx'. Extract ctx carrier = Inr ctx' \<and>
           remoteSpanReference ctx' = remoteSpanReference ctx \<and> currentSpan ctx' = currentSpan ctx"
  by (simp add: Extract_rejected [OF assms])

lemma Extract_accepted:
  "extract' carrier = Inr sr \<Longrightarrow> IsValid sr \<Longrightarrow>
     \<exists>ctx'. Extract ctx carrier = Inr ctx' \<and>
           remoteSpanReference ctx' = Some sr \<and> currentSpan ctx' = currentSpan ctx"
  by (simp add: Extract_def bind_def Let_def ContextWithRemoteSpanReference_def)

lemma DecodeString_zeros: "DecodeString (replicate (2 * n) (CHR ''0'')) = Some (replicate n 0)"
  by (induction n) (simp_all add: fromHexChar_def)

lemma not_ID_IsValid_zeros: "\<not> ID_IsValid (replicate n 0)"
  by (simp add: ID_IsValid_def)

lemma header_fields:
  assumes "length v = 2" and "length t = 32" and "length s = 16" and "length f = 2"
  shows "take 2 (v @ ''-'' @ t @ ''-'' @ s @ ''-'' @ f) = v"
    and "take 32 (drop 3 (v @ ''-'' @ t @ ''-'' @ s @ ''-'' @ f)) = t"
    and "take 16 (drop 36 (v @ ''-'' @ t @ ''-'' @ s @ ''-'' @ f)) = s"
    and "take 2 (drop 53 (v @ ''-'' @ t @ ''-'' @ s @ ''-'' @ f)) = f"
    and "drop 55 (v @ ''-'' @ t @ ''-'' @ s @ ''-'' @ f) = []"
    and "take 1 (drop 2 (v @ ''-'' @ t @ ''-'' @ s @ ''-'' @ f)) = ''-''"
    and "take 1 (drop 35 (v @ ''-'' @ t @ ''-'' @ s @ ''-'' @ f)) = ''-''"
    and "take 1 (drop 52 (v @ ''-'' @ t @ ''-'' @ s @ ''-'' @ f)) = ''-''"
  using assms by simp_all

lemma header_matches:
  assumes "length v = 2" and "length t = 32" and "length s = 16" and "length f = 2"
    and "list_all lowerHex v" and "list_all lowerHex t" and "list_all lowerHex s"
    and "list_all lowerHex f"
  shows "FindStringSubmatch (v @ ''-'' @ t @ ''-'' @ s @ ''-'' @ f) \<noteq> []"
  unfolding FindStringSubmatch_def Let_def header_fields [OF assms(1-4)]
  using assms by simp

lemma IsValid_example: "IsValid (exampleRef flags)" "wellformed (exampleRef flags)"
  by (simp_all add: IsValid_def ID_IsValid_def wellformed_def exampleRef_def
      exampleTraceID_def exampleSpanID_def)

lemma Get_traceparentCarrier: "carrier_Get (traceparentCarrier h) traceparentHeader = h"
  by (simp add: traceparentCarrier_def carrier_Get_def carrier_Set_def)

lemma Inject_traceparent:
  assumes "currentSpan ctx = Some r" and "IsValid r"
  shows "carrier_Get (Inject ctx carrier) traceparentHeader =
           encodeByte 0 @ ''-'' @ EncodeToString (TraceID r) @ ''-'' @
           EncodeToString (SpanID r) @ ''-'' @ encodeByte (TraceFlags r AND 1)"
  using assms
  by (simp add: Inject_def SpanFromContext_def Let_def carrier_Get_def carrier_Set_def
      Sprintf_02x_def ID_String_def supportedVersion_def FlagsSampled_def)

lemma DecodeString_encodeByte: "DecodeString (encodeByte v) = Some [v]"
  using decode_encodeByte [of v "[]"] by simp

lemma sampled_bit_le: "\<not> (2 :: byte) < x AND 1"
proof -
  have "x AND 1 \<le> (1 :: byte)" by (rule word_and_le1)
  then show ?thesis by (simp add: word_le_nat_alt word_less_nat_alt)
qed

lemma extract'_Inject:
  assumes cur: "currentSpan ctx = Some r" and valid: "IsValid r" and wf: "wellformed r"
  shows "extract' (Inject ctx carrier) =
           Inr \<lparr>TraceID = TraceID r, SpanID = SpanID r, TraceFlags = TraceFlags r AND 1\<rparr>"
proof -
  let ?v = "encodeByte 0" and ?t = "EncodeToString (TraceID r)"
  let ?s = "EncodeToString (SpanID r)" and ?f = "encodeByte (TraceFlags r AND 1)"
  let ?h = "?v @ ''-'' @ ?t @ ''-'' @ ?s @ ''-'' @ ?f"
  have len: "length ?v = 2" "length ?t = 32" "length ?s = 16" "length ?f = 2"
    using wf by (simp_all add: length_encodeByte length_EncodeToString wellformed_def)
  have hex: "list_all lowerHex ?v" "list_all lowerHex ?t" "list_all lowerHex ?s"
    "list_all lowerHex ?f"
    by (simp_all add: lowerHex_encodeByte lowerHex_EncodeToString)
  have h: "carrier_Get (Inject ctx carrier) traceparentHeader = ?h"
    by (rule Inject_traceparent [OF cur valid])
  have m: "FindStringSubmatch ?h \<noteq> []"
    by (rule header_matches [OF len hex])
  note fld = header_fields [OF len]
  from extract'_matched [OF h m] obtain v tid sid f where
    d: "DecodeString (take 2 ?h) = Some [v]" "DecodeString (take 32 (drop 3 ?h)) = Some tid"
       "DecodeString (take 16 (drop 36 ?h)) = Some sid"
       "DecodeString (take 2 (drop 53 ?h)) = Some [f]"
    and e: "extract' (Inject ctx carrier) =
       Inr (if unat v > 254 \<or> (v = 0 \<and> f > 2) \<or>
               \<not> IsValid \<lparr>TraceID = tid, SpanID = sid, TraceFlags = f AND 1\<rparr>
            then emptySpanReference
            else \<lparr>TraceID = tid, SpanID = sid, TraceFlags = f AND 1\<rparr>)"
    by blast
  from d(1) have v: "v = 0" unfolding fld(1) by (simp add: DecodeString_encodeByte)
  from d(2) have tid: "tid = TraceID r" unfolding fld(2) by (simp add: DecodeString_EncodeToString)
  from d(3) have sid: "sid = SpanID r" unfolding fld(3) by (simp add: DecodeString_EncodeToString)
  from d(4) have f: "f = TraceFlags r AND 1" unfolding fld(4) by (simp add: DecodeString_encodeByte)
  have ok: "IsValid \<lparr>TraceID = TraceID r, SpanID = SpanID r, TraceFlags = TraceFlags r AND 1\<rparr>"
    using valid by (simp add: IsValid_def)
  show ?thesis
    unfolding e v tid sid f using ok by (simp add: sampled_bit_le and.assoc)
qed

section \<open>Claims about parent resolution\<close>

text \<open>
  Claim C2. For every ambient context and every value of \<open>ignoreContext\<close>,
  \<open>GetSpanReferenceAndLinks\<close> returns exactly the four branches of parent resolution: with
  \<open>ignoreContext\<close> the parent is the invalid reference, \<open>isRemote\<close> is false and the links
  are, in this order, one for the local reference tagged \<open>ignored-on-demand = current\<close> when
  it is valid and one for the remote reference tagged \<open>ignored-on-demand = remote\<close> when it is
  valid; otherwise a valid local reference is returned as \<open>(local, false, no links)\<close>;
  otherwise a valid remote reference as \<open>(remote, true, no links)\<close>; otherwise
  \<open>(Invalid, false, no links)\<close>.
\<close>

theorem GetSpanReferenceAndLinks_branches:
  "GetSpanReferenceAndLinks ctx ignoreContext =
     (let local = SpanFromContext ctx; remote = RemoteSpanReferenceFromContext ctx in
      if ignoreContext then
        (emptySpanReference, False,
         (if IsValid local
          then [\<lparr>LinkSpanReference = local,
                  Attributes = [\<lparr>Key = ''ignored-on-demand'', Value = ''current''\<rparr>]\<rparr>]
          else []) @
         (if IsValid remote
          then [\<lparr>LinkSpanReference = remote,
                  Attributes = [\<lparr>Key = ''ignored-on-demand'', Value = ''remote''\<rparr>]\<rparr>]
          else []))
      else if IsValid local then (local, False, [])
      else if IsValid remote then (remote, True, [])
      else (emptySpanReference, False, []))
   \<and> \<not> IsValid emptySpanReference"
  by (simp add: GetSpanReferenceAndLinks_def addLinkIfValid_def label_String_def Let_def
      not_IsValid_empty)

theorem GetSpanReferenceAndLinks_branches_witness:
  "GetSpanReferenceAndLinks
     \<lparr>currentSpan = Some (exampleRef 1), remoteSpanReference = Some otherRef,
      tracestateValue = None\<rparr> True =
     (emptySpanReference, False,
      [\<lparr>LinkSpanReference = exampleRef 1,
        Attributes = [\<lparr>Key = ''ignored-on-demand'', Value = ''current''\<rparr>]\<rparr>,
       \<lparr>LinkSpanReference = otherRef,
        Attributes = [\<lparr>Key = ''ignored-on-demand'', Value = ''remote''\<rparr>]\<rparr>])
   \<and> GetSpanReferenceAndLinks
     \<lparr>currentSpan = Some (exampleRef 1), remoteSpanReference = Some otherRef,
      tracestateValue = None\<rparr> False = (exampleRef 1, False, [])"
proof -
  have v: "IsValid (exampleRef 1)" "IsValid otherRef"
    by (simp_all add: IsValid_def ID_IsValid_def exampleRef_def exampleTraceID_def
        exampleSpanID_def otherRef_def)
  show ?thesis
    using v
      GetSpanReferenceAndLinks_branches [of "\<lparr>currentSpan = Some (exampleRef 1),
        remoteSpanReference = Some otherRef, tracestateValue = None\<rparr>" True]
      GetSpanReferenceAndLinks_branches [of "\<lparr>currentSpan = Some (exampleRef 1),
        remoteSpanReference = Some otherRef, tracestateValue = None\<rparr>" False]
    by (simp add: SpanFromContext_def RemoteSpanReferenceFromContext_def Let_def)
qed

text \<open>
  Claim C10. For every context and every value of \<open>ignoreContext\<close>, every link returned by
  \<open>GetSpanReferenceAndLinks\<close> references a valid span reference and carries exactly one
  attribute, whose key is \<open>ignored-on-demand\<close>; when \<open>ignoreContext\<close> is true and both the
  local and the remote reference are invalid, the list of links is empty.
\<close>

theorem links_reference_valid_spans:
  assumes "GetSpanReferenceAndLinks ctx ignoreContext = (parent, isRemote, links)"
  shows "(\<forall>l \<in> set links. IsValid (LinkSpanReference l) \<and> length (Attributes l) = 1 \<and>
            Key (Attributes l ! 0) = ''ignored-on-demand'')
         \<and> (ignoreContext \<and> \<not> IsValid (SpanFromContext ctx) \<and>
              \<not> IsValid (RemoteSpanReferenceFromContext ctx) \<longrightarrow> links = [])"
  using assms
  by (auto simp: GetSpanReferenceAndLinks_def addLinkIfValid_def label_String_def Let_def
      split: if_splits)

theorem links_reference_valid_spans_witness:
  "list_all (\<lambda>l. IsValid (LinkSpanReference l) \<and> length (Attributes l) = 1 \<and>
               Key (Attributes l ! 0) = ''ignored-on-demand'')
     (snd (snd (GetSpanReferenceAndLinks
        \<lparr>currentSpan = Some (exampleRef 1), remoteSpanReference = Some otherRef,
         tracestateValue = None\<rparr> True)))
   \<and> length (snd (snd (GetSpanReferenceAndLinks
        \<lparr>currentSpan = Some (exampleRef 1), remoteSpanReference = Some otherRef,
         tracestateValue = None\<rparr> True))) = 2
   \<and> snd (snd (GetSpanReferenceAndLinks Background True)) = []"
proof -
  let ?c = "\<lparr>currentSpan = Some (exampleRef 1), remoteSpanReference = Some otherRef,
         tracestateValue = None\<rparr>"
  have v: "IsValid (exampleRef 1)" "IsValid otherRef"
    by (simp_all add: IsValid_def ID_IsValid_def exampleRef_def exampleTraceID_def
        exampleSpanID_def otherRef_def)
  have a: "GetSpanReferenceAndLinks ?c True =
      (fst (GetSpanReferenceAndLinks ?c True), fst (snd (GetSpanReferenceAndLinks ?c True)),
       snd (snd (GetSpanReferenceAndLinks ?c True)))" by simp
  have b: "GetSpanReferenceAndLinks Background True =
      (fst (GetSpanReferenceAndLinks Background True),
       fst (snd (GetSpanReferenceAndLinks Background True)),
       snd (snd (GetSpanReferenceAndLinks Background True)))" by simp
  have n: "\<not> IsValid (SpanFromContext Background)"
    "\<not> IsValid (RemoteSpanReferenceFromContext Background)"
    by (simp_all add: SpanFromContext_def RemoteSpanReferenceFromContext_def Background_def
        not_IsValid_empty)
  have len: "length (snd (snd (GetSpanReferenceAndLinks ?c True))) = 2"
    using v by (simp add: GetSpanReferenceAndLinks_def addLinkIfValid_def Let_def
        SpanFromContext_def RemoteSpanReferenceFromContext_def)
  from links_reference_valid_spans [OF a] links_reference_valid_spans [OF b] n len
  show ?thesis by (simp add: list_all_iff)
qed

section \<open>Claims about the trace-context propagator\<close>

text \<open>
  Claim C1. Round trip through the wire propagator: for every valid span reference \<open>r\<close>
  (of the array widths of the Go types), injecting a context whose current span reference
  is \<open>r\<close> with \<open>Inject\<close> and extracting the resulting carrier with \<open>Extract\<close>, into any
  context, yields a context whose remote span reference has the \<open>TraceID\<close> and \<open>SpanID\<close>
  of \<open>r\<close> and the flags of \<open>r\<close> masked to the sampled bit; the local current-span slot of
  the receiving context is left as it was.
\<close>

theorem Inject_Extract_roundtrip:
  assumes "currentSpan ctx = Some r" and "IsValid r" and "wellformed r"
  shows "\<exists>ctx'. Extract ctx0 (Inject ctx carrier) = Inr ctx' \<and>
           remoteSpanReference ctx' =
             Some \<lparr>TraceID = TraceID r, SpanID = SpanID r,
                   TraceFlags = TraceFlags r AND FlagsSampled\<rparr> \<and>
           currentSpan ctx' = currentSpan ctx0"
proof -
  have "IsValid \<lparr>TraceID = TraceID r, SpanID = SpanID r, TraceFlags = TraceFlags r AND 1\<rparr>"
    using assms(2) by (simp add: IsValid_def)
  from Extract_accepted [OF extract'_Inject [OF assms] this]
  show ?thesis by (simp add: FlagsSampled_def)
qed

theorem Inject_Extract_roundtrip_witness:
  "IsValid (exampleRef 0xff) \<and> wellformed (exampleRef 0xff)
   \<and> carrier_Get (Inject (Background\<lparr>currentSpan := Some (exampleRef 0xff)\<rparr>) Map.empty)
       traceparentHeader = ''00-4bf92f3577b34da6a3ce929d0e0e4736-00f067aa0ba902b7-01''
   \<and> Extract Background (Inject (Background\<lparr>currentSpan := Some (exampleRef 0xff)\<rparr>) Map.empty) =
       Inr (Background\<lparr>remoteSpanReference := Some (exampleRef 0x01)\<rparr>)"
proof -
  let ?ctx = "Background\<lparr>currentSpan := Some (exampleRef 0xff)\<rparr>"
  have c: "currentSpan ?ctx = Some (exampleRef 0xff)" by simp
  from Inject_Extract_roundtrip [OF c IsValid_example, of Background Map.empty]
  obtain ctx' where x: "Extract Background (Inject ?ctx Map.empty) = Inr ctx'"
    and r: "remoteSpanReference ctx' = Some (exampleRef 0x01)"
    and l: "currentSpan ctx' = None"
    by (auto simp: exampleRef_def FlagsSampled_def Background_def)
  have h: "carrier_Get (Inject ?ctx Map.empty) traceparentHeader =
      ''00-4bf92f3577b34da6a3ce929d0e0e4736-00f067aa0ba902b7-01''"
    by code_simp
  have "tracestateValue (projr (Extract Background (Inject ?ctx Map.empty))) = None"
    by code_simp
  with x have "tracestateValue ctx' = None" by simp
  with r l have "ctx' = Background\<lparr>remoteSpanReference := Some (exampleRef 0x01)\<rparr>"
    by (simp add: Background_def)
  with x h IsValid_example show ?thesis by simp
qed

text \<open>
  Claim C3. A \<open>traceparent\<close> header whose version field decodes to 0 and which carries a
  trailing dash-segment beyond the four groups is to be rejected. The source tests
  \<open>version == 0 && len(matches) != 5\<close>, but a match of \<open>traceCtxRegExp\<close> always has five
  elements, the tail being a non-capturing group. At the header
  \<open>00-4bf92f3577b34da6a3ce929d0e0e4736-00f067aa0ba902b7-01-extra\<close> the version decodes to 0,
  the match has five elements, and \<open>Extract\<close> sets the remote span reference.
\<close>

theorem Extract_accepts_version0_with_trailing_segment:
  "DecodeString (take 2 ''00-4bf92f3577b34da6a3ce929d0e0e4736-00f067aa0ba902b7-01-extra'') = Some [0]
   \<and> length (FindStringSubmatch
         ''00-4bf92f3577b34da6a3ce929d0e0e4736-00f067aa0ba902b7-01-extra'') = 5
   \<and> Extract Background
        (traceparentCarrier ''00-4bf92f3577b34da6a3ce929d0e0e4736-00f067aa0ba902b7-01-extra'') =
       Inr (Background\<lparr>remoteSpanReference := Some (exampleRef 0x01)\<rparr>)"
  by code_simp

text \<open>
  Claim C4, as the code has it. For every \<open>traceparent\<close> header whose version field decodes
  to 0, \<open>Extract\<close> rejects the header whenever the decoded flags byte exceeds 2: no remote
  span reference is set. (The guard of the source is \<open>version == 0 && opts[0] > 2\<close>.)
\<close>

theorem Extract_rejects_flags_above_2:
  assumes "carrier_Get carrier traceparentHeader = h"
    and "DecodeString (take 2 h) = Some [0]"
    and "DecodeString (take 2 (drop 53 h)) = Some [f]"
    and "f > 2"
  shows "extract' carrier = Inr emptySpanReference \<and>
         (\<exists>ctx'. Extract ctx carrier = Inr ctx' \<and>
            remoteSpanReference ctx' = remoteSpanReference ctx \<and>
            currentSpan ctx' = currentSpan ctx)"
proof -
  have "extract' carrier = Inr emptySpanReference"
  proof (cases "FindStringSubmatch h = []")
    case True
    then show ?thesis using assms(1) by (simp add: extract'_unmatched)
  next
    case False
    from extract'_matched [OF assms(1) False] assms(2,3,4) show ?thesis by auto
  qed
  with Extract_rejected_slots [OF this] show ?thesis by simp
qed

theorem Extract_rejects_flags_above_2_witness:
  "DecodeString (take 2 ''00-4bf92f3577b34da6a3ce929d0e0e4736-00f067aa0ba902b7-09'') = Some [0]
   \<and> DecodeString (take 2 (drop 53 ''00-4bf92f3577b34da6a3ce929d0e0e4736-00f067aa0ba902b7-09''))
       = Some [0x09]
   \<and> (0x09 :: byte) > 2
   \<and> extract' (traceparentCarrier ''00-4bf92f3577b34da6a3ce929d0e0e4736-00f067aa0ba902b7-09'')
       = Inr emptySpanReference
   \<and> map_sum id remoteSpanReference (Extract Background
        (traceparentCarrier ''00-4bf92f3577b34da6a3ce929d0e0e4736-00f067aa0ba902b7-09''))
       = Inr None"
proof -
  let ?h = "''00-4bf92f3577b34da6a3ce929d0e0e4736-00f067aa0ba902b7-09''"
  have a: "DecodeString (take 2 ?h) = Some [0]" by code_simp
  have b: "DecodeString (take 2 (drop 53 ?h)) = Some [0x09]" by code_simp
  have c: "(0x09 :: byte) > 2" by simp
  from Extract_rejects_flags_above_2 [OF Get_traceparentCarrier a b c, of Background]
  show ?thesis using a b c by (auto simp: Background_def)
qed

text \<open>
  Claim C4 as stated fails at the flags byte \<open>02\<close>: bit 1 is a bit other than the sampled
  bit, the version decodes to 0, and the header is accepted, with the flags masked to 0.
\<close>

theorem Extract_accepts_flags_02:
  "DecodeString (take 2 ''00-4bf92f3577b34da6a3ce929d0e0e4736-00f067aa0ba902b7-02'') = Some [0]
   \<and> DecodeString (take 2 (drop 53 ''00-4bf92f3577b34da6a3ce929d0e0e4736-00f067aa0ba902b7-02'')) =
       Some [0x02]
   \<and> (0x02 :: byte) AND NOT FlagsSampled \<noteq> 0
   \<and> Extract Background
        (traceparentCarrier ''00-4bf92f3577b34da6a3ce929d0e0e4736-00f067aa0ba902b7-02'') =
       Inr (Background\<lparr>remoteSpanReference := Some (exampleRef 0x00)\<rparr>)"
  by code_simp

lemma extract'_rejects_zero_ids:
  assumes "carrier_Get carrier traceparentHeader = h"
    and "take 32 (drop 3 h) = replicate 32 (CHR ''0'') \<or> take 16 (drop 36 h) = replicate 16 (CHR ''0'')"
  shows "extract' carrier = Inr emptySpanReference"
proof (cases "FindStringSubmatch h = []")
  case True
  then show ?thesis using assms(1) by (simp add: extract'_unmatched)
next
  case False
  from extract'_matched [OF assms(1) False] obtain v tid sid f where
    d0: "DecodeString (take 2 h) = Some [v]"
    and d: "DecodeString (take 32 (drop 3 h)) = Some tid"
       "DecodeString (take 16 (drop 36 h)) = Some sid"
    and d3: "DecodeString (take 2 (drop 53 h)) = Some [f]"
    and e: "extract' carrier =
       Inr (if unat v > 254 \<or> (v = 0 \<and> f > 2) \<or>
               \<not> IsValid \<lparr>TraceID = tid, SpanID = sid, TraceFlags = f AND 1\<rparr>
            then emptySpanReference
            else \<lparr>TraceID = tid, SpanID = sid, TraceFlags = f AND 1\<rparr>)"
    by blast
  from assms(2) have "\<not> ID_IsValid tid \<or> \<not> ID_IsValid sid"
  proof
    assume "take 32 (drop 3 h) = replicate 32 (CHR ''0'')"
    with d(1) DecodeString_zeros [of 16] have "tid = replicate 16 0" by simp
    then show ?thesis by (simp add: not_ID_IsValid_zeros)
  next
    assume "take 16 (drop 36 h) = replicate 16 (CHR ''0'')"
    with d(2) DecodeString_zeros [of 8] have "sid = replicate 8 0" by simp
    then show ?thesis by (simp add: not_ID_IsValid_zeros)
  qed
  then show ?thesis unfolding e by (auto simp: IsValid_def)
qed

text \<open>
  Claim C6. For every \<open>traceparent\<close> header whose traceid group (the 32 characters after
  the first dash) is all \<open>0\<close> characters, or whose spanid group (the 16 characters after the
  second dash) is, \<open>Extract\<close> treats the header as absent and sets no remote span reference:
  the remote slot of the returned context is that of the context passed in. In particular
  \<open>00-00000000000000000000000000000000-00f067aa0ba902b7-01\<close> extracts to absent.
\<close>

theorem Extract_rejects_zero_identifiers:
  assumes "carrier_Get carrier traceparentHeader = h"
    and "take 32 (drop 3 h) = replicate 32 (CHR ''0'') \<or> take 16 (drop 36 h) = replicate 16 (CHR ''0'')"
  shows "extract' carrier = Inr emptySpanReference \<and>
         (\<exists>ctx'. Extract ctx carrier = Inr ctx' \<and>
            remoteSpanReference ctx' = remoteSpanReference ctx \<and>
            currentSpan ctx' = currentSpan ctx)"
  using extract'_rejects_zero_ids [OF assms]
    Extract_rejected_slots [OF extract'_rejects_zero_ids [OF assms]] by simp

theorem Extract_rejects_zero_identifiers_witness:
  "take 32 (drop 3 ''00-00000000000000000000000000000000-00f067aa0ba902b7-01'') =
     replicate 32 (CHR ''0'')
   \<and> Extract Background
       (traceparentCarrier ''00-00000000000000000000000000000000-00f067aa0ba902b7-01'') =
       Inr Background
   \<and> remoteSpanReference Background = None"
proof -
  let ?h = "''00-00000000000000000000000000000000-00f067aa0ba902b7-01''"
  have z: "take 32 (drop 3 ?h) = replicate 32 (CHR ''0'')" by code_simp
  have st: "carrier_Get (traceparentCarrier ?h) tracestateHeader = []"
    by (simp add: traceparentCarrier_def carrier_Get_def carrier_Set_def tracestateHeader_def
        traceparentHeader_def)
  from Extract_rejects_zero_identifiers [OF Get_traceparentCarrier disjI1 [OF z], of Background]
  have "extract' (traceparentCarrier ?h) = Inr emptySpanReference" by simp
  from Extract_rejected [OF this, of Background] st z
  show ?thesis by (simp add: Background_def)
qed

lemma extract'_rejects_version:
  assumes "carrier_Get carrier traceparentHeader = h"
    and "DecodeString (take 2 h) = Some [v]" and "unat v > 254"
  shows "extract' carrier = Inr emptySpanReference"
proof (cases "FindStringSubmatch h = []")
  case True
  then show ?thesis using assms(1) by (simp add: extract'_unmatched)
next
  case False
  from extract'_matched [OF assms(1) False] assms(2,3) show ?thesis by auto
qed

text \<open>
  Claim C7. For every \<open>traceparent\<close> header whose two-digit version field decodes to a value
  greater than 254, which is the value 255, \<open>Extract\<close> rejects the header and sets no remote
  span reference, whatever the other fields are.
\<close>

theorem Extract_rejects_version_ff:
  assumes "carrier_Get carrier traceparentHeader = h"
    and "DecodeString (take 2 h) = Some [v]" and "unat v > 254"
  shows "v = 0xff \<and> extract' carrier = Inr emptySpanReference \<and>
         (\<exists>ctx'. Extract ctx carrier = Inr ctx' \<and>
            remoteSpanReference ctx' = remoteSpanReference ctx \<and>
            currentSpan ctx' = currentSpan ctx)"
proof -
  have "unat v < 256" using unsigned_less [of v, where ?'a = nat] by simp
  with assms(3) have "unat v = 255" by simp
  moreover have "v = of_nat (unat v)" by simp
  ultimately have "v = 0xff" by simp
  with extract'_rejects_version [OF assms]
    Extract_rejected_slots [OF extract'_rejects_version [OF assms]]
  show ?thesis by simp
qed

theorem Extract_rejects_version_ff_witness:
  "DecodeString (take 2 ''ff-4bf92f3577b34da6a3ce929d0e0e4736-00f067aa0ba902b7-01'') = Some [0xff]
   \<and> unat (0xff :: byte) > 254
   \<and> Extract Background
       (traceparentCarrier ''ff-4bf92f3577b34da6a3ce929d0e0e4736-00f067aa0ba902b7-01'') =
       Inr Background
   \<and> remoteSpanReference Background = None"
proof -
  let ?h = "''ff-4bf92f3577b34da6a3ce929d0e0e4736-00f067aa0ba902b7-01''"
  have a: "DecodeString (take 2 ?h) = Some [0xff]" by code_simp
  have b: "unat (0xff :: byte) > 254" by simp
  have st: "carrier_Get (traceparentCarrier ?h) tracestateHeader = []"
    by (simp add: traceparentCarrier_def carrier_Get_def carrier_Set_def tracestateHeader_def
        traceparentHeader_def)
  from Extract_rejects_version_ff [OF Get_traceparentCarrier a b, of Background]
  have "extract' (traceparentCarrier ?h) = Inr emptySpanReference" by simp
  from Extract_rejected [OF this, of Background] st a b
  show ?thesis by (simp add: Background_def)
qed

lemma lowerHex_in_hextable: "\<forall>c. lowerHex c \<longrightarrow> c \<in> set hextable"
  by code_simp

lemma small_flags_text:
  "list_all (\<lambda>a. list_all (\<lambda>b.
      case DecodeString [a, b] of
        Some [f] \<Rightarrow> f \<le> 2 \<longrightarrow> [a, b] \<in> set [''00'', ''01'', ''02'']
      | _ \<Rightarrow> False) hextable) hextable"
  by code_simp

lemma flags_at_most_2:
  assumes "length s = 2" and "list_all lowerHex s" and "DecodeString s = Some [f]" and "f \<le> 2"
  shows "s \<in> {''00'', ''01'', ''02''}"
proof -
  from assms(1) obtain a b where s: "s = [a, b]"
    by (cases s; cases "tl s") auto
  with assms(2) have "a \<in> set hextable" "b \<in> set hextable"
    using lowerHex_in_hextable by simp_all
  with small_flags_text have
    "case DecodeString [a, b] of
        Some [f] \<Rightarrow> f \<le> 2 \<longrightarrow> [a, b] \<in> set [''00'', ''01'', ''02'']
      | _ \<Rightarrow> False"
    by (simp add: list_all_iff)
  with assms(3,4) s show ?thesis by simp
qed

lemma DecodeString_ff: "DecodeString ''ff'' = Some [0xff]"
  by code_simp

lemma DecodeString_00: "DecodeString ''00'' = Some [0]"
  by code_simp

lemma malformed_rejected:
  assumes h: "carrier_Get carrier traceparentHeader = h" and bad: "spec_malformed h"
    and ext: "\<not> (take 2 h = ''00'' \<and> length h > 55)"
  shows "extract' carrier = Inr emptySpanReference"
proof (cases "FindStringSubmatch h = []")
  case True
  then show ?thesis using h by (simp add: extract'_unmatched)
next
  case False
  note g = FindStringSubmatch_groups [OF False]
  from False have sep: "take 1 (drop 2 h) = ''-''" "take 1 (drop 35 h) = ''-''"
    "take 1 (drop 52 h) = ''-''" "drop 55 h = [] \<or> take 1 (drop 55 h) = ''-''"
    by (auto simp: FindStringSubmatch_def Let_def split: if_splits)
  from g(7) have len: "\<not> length h < 55" by auto
  from sep(4) have tail: "\<not> (length h > 55 \<and> take 1 (drop 55 h) \<noteq> ''-'')" by auto
  from bad ext len sep(1-3) tail g(2,4,6,8)
  consider (ver) "take 2 h = ''ff''"
    | (ids) "take 32 (drop 3 h) = replicate 32 (CHR ''0'') \<or>
             take 16 (drop 36 h) = replicate 16 (CHR ''0'')"
    | (flags) "take 2 h = ''00''" "take 2 (drop 53 h) \<notin> {''00'', ''01'', ''02''}"
    unfolding spec_malformed_def by blast
  then show ?thesis
  proof cases
    case ver
    have "DecodeString (take 2 h) = Some [0xff]" unfolding ver by (rule DecodeString_ff)
    from extract'_rejects_version [OF h this] show ?thesis by simp
  next
    case ids
    from extract'_rejects_zero_ids [OF h this] show ?thesis .
  next
    case flags
    from extract'_matched [OF h False] obtain v tid sid f where
      d0: "DecodeString (take 2 h) = Some [v]"
      and d: "DecodeString (take 32 (drop 3 h)) = Some tid"
         "DecodeString (take 16 (drop 36 h)) = Some sid"
      and d3: "DecodeString (take 2 (drop 53 h)) = Some [f]"
      and e: "extract' carrier =
         Inr (if unat v > 254 \<or> (v = 0 \<and> f > 2) \<or>
                 \<not> IsValid \<lparr>TraceID = tid, SpanID = sid, TraceFlags = f AND 1\<rparr>
              then emptySpanReference
              else \<lparr>TraceID = tid, SpanID = sid, TraceFlags = f AND 1\<rparr>)"
      by blast
    from d0 have v: "v = 0" unfolding flags(1) DecodeString_00 by simp
    from flags_at_most_2 [OF g(7,8) d3] flags(2) have "\<not> f \<le> 2" by blast
    then have "f > 2" by (simp add: not_le)
    with v show ?thesis unfolding e by simp
  qed
qed

lemma Extract_fail_soft_but_extension:
  "\<exists>ctx'. Extract ctx carrier = Inr ctx' \<and> currentSpan ctx' = currentSpan ctx \<and>
      (spec_malformed (carrier_Get carrier traceparentHeader) \<and>
       \<not> (take 2 (carrier_Get carrier traceparentHeader) = ''00'' \<and>
          length (carrier_Get carrier traceparentHeader) > 55) \<longrightarrow>
         remoteSpanReference ctx' = remoteSpanReference ctx)"
proof (cases "spec_malformed (carrier_Get carrier traceparentHeader) \<and>
       \<not> (take 2 (carrier_Get carrier traceparentHeader) = ''00'' \<and>
          length (carrier_Get carrier traceparentHeader) > 55)")
  case True
  then have "extract' carrier = Inr emptySpanReference"
    using malformed_rejected [OF refl, of carrier] by blast
  from Extract_rejected_slots [OF this, of ctx] show ?thesis by auto
next
  case False
  from extract'_total obtain sr where "extract' carrier = Inr sr" by blast
  then obtain ctx' where "Extract ctx carrier = Inr ctx'" "currentSpan ctx' = currentSpan ctx"
    by (cases "IsValid sr")
      (simp_all add: Extract_def bind_def Let_def ContextWithRemoteSpanReference_def)
  with False show ?thesis by blast
qed

text \<open>
  Claim C5. \<open>Extract\<close> is to be fail-soft: it never raises, and on any malformed, truncated
  or semantically invalid \<open>traceparent\<close> value the returned context has no remote span
  reference set. \<open>Extract\<close> does return a context for every input, and it sets no remote
  reference on a rejected value of any other kind (\<open>Extract_fail_soft_but_extension\<close>). But
  the header \<open>00-4bf92f3577b34da6a3ce929d0e0e4736-00f067aa0ba902b7-01-extra\<close> is one the
  specification rejects (\<open>spec_malformed\<close>, by the rule for version \<open>00\<close> with anything
  beyond the four groups), and on it \<open>Extract\<close> sets the remote span reference of the
  background context. The cause is the dead guard of claim C3.
\<close>

theorem Extract_sets_remote_on_malformed_header:
  "spec_malformed ''00-4bf92f3577b34da6a3ce929d0e0e4736-00f067aa0ba902b7-01-extra''
   \<and> remoteSpanReference Background = None
   \<and> Extract Background
        (traceparentCarrier ''00-4bf92f3577b34da6a3ce929d0e0e4736-00f067aa0ba902b7-01-extra'') =
       Inr (Background\<lparr>remoteSpanReference := Some (exampleRef 0x01)\<rparr>)"
  by code_simp

theorem Extract_sets_remote_on_malformed_header_witness:
  "map_sum id remoteSpanReference
     (Extract Background
        (traceparentCarrier ''00-4bf92f3577b34da6a3ce929d0e0e4736-00f067aa0ba902b7-01-extra'')) =
     Inr (Some (exampleRef 0x01))"
  using Extract_sets_remote_on_malformed_header by simp

text \<open>
  Claim C8. Tracestate handling in \<open>Extract\<close> does not depend on the \<open>traceparent\<close> field:
  for every carrier whose \<open>tracestate\<close> field is a non-empty string, \<open>Extract\<close> stores that
  string verbatim as the pass-through value of the returned context, whatever the
  \<open>traceparent\<close> field holds (empty, malformed, rejected or accepted). So the returned
  context differs from the one passed in unless that already held the same value.
\<close>

theorem Extract_stores_tracestate:
  assumes "carrier_Get carrier tracestateHeader = s" and "s \<noteq> []"
  shows "\<exists>ctx'. Extract ctx carrier = Inr ctx' \<and> tracestateValue ctx' = Some s \<and>
           (tracestateValue ctx \<noteq> Some s \<longrightarrow> ctx' \<noteq> ctx)"
proof -
  from extract'_total obtain sr where "extract' carrier = Inr sr" by blast
  with assms obtain ctx' where x: "Extract ctx carrier = Inr ctx'"
    and t: "tracestateValue ctx' = Some s"
    by (cases "IsValid sr")
      (simp_all add: Extract_def bind_def Let_def ContextWithRemoteSpanReference_def)
  from t have "tracestateValue ctx \<noteq> Some s \<longrightarrow> ctx' \<noteq> ctx" by auto
  with x t show ?thesis by blast
qed

theorem Extract_stores_tracestate_witness:
  "carrier_Get (carrier_Set (traceparentCarrier ''00-xyz'') tracestateHeader ''vendor=opaque'')
     tracestateHeader = ''vendor=opaque''
   \<and> Extract Background
        (carrier_Set (traceparentCarrier ''00-xyz'') tracestateHeader ''vendor=opaque'') =
       Inr (Background\<lparr>tracestateValue := Some ''vendor=opaque''\<rparr>)
   \<and> Extract Background
        (carrier_Set (traceparentCarrier ''00-xyz'') tracestateHeader ''vendor=opaque'') \<noteq>
       Inr Background"
proof -
  let ?c = "carrier_Set (traceparentCarrier ''00-xyz'') tracestateHeader ''vendor=opaque''"
  have g: "carrier_Get ?c tracestateHeader = ''vendor=opaque''"
    by (simp add: carrier_Get_def carrier_Set_def)
  have n: "''vendor=opaque'' \<noteq> []" by simp
  have e: "Extract Background ?c = Inr (Background\<lparr>tracestateValue := Some ''vendor=opaque''\<rparr>)"
    by code_simp
  from Extract_stores_tracestate [OF g n, of Background] g e
  show ?thesis by (auto simp: Background_def)
qed

lemma upper_not_lowerHex: "c \<in> set ''ABCDEF'' \<Longrightarrow> \<not> lowerHex c"
  by (auto simp: lowerHex_def)

lemma matched_group_chars:
  assumes m: "FindStringSubmatch h \<noteq> []"
    and i: "i \<in> {0, 1} \<union> {3..<35} \<union> {36..<52} \<union> {53, 54}"
  shows "lowerHex (h ! i)"
proof -
  note g = FindStringSubmatch_groups [OF m]
  from g(7) have len: "55 \<le> length h" by auto
  from i consider "i < 2" | "3 \<le> i" "i < 35" | "36 \<le> i" "i < 52" | "53 \<le> i" "i < 55"
    by auto
  then show ?thesis
  proof cases
    case 1
    from g(2) len have "\<forall>n<2. lowerHex (h ! n)" by (simp add: list_all_length)
    with 1 show ?thesis by blast
  next
    case 2
    from g(4) len have "\<forall>n<32. lowerHex (h ! (3 + n))" by (simp add: list_all_length)
    moreover from 2 have "i - 3 < 32" by simp
    ultimately have "lowerHex (h ! (3 + (i - 3)))" by blast
    with 2 show ?thesis by simp
  next
    case 3
    from g(6) len have "\<forall>n<16. lowerHex (h ! (36 + n))" by (simp add: list_all_length)
    moreover from 3 have "i - 36 < 16" by simp
    ultimately have "lowerHex (h ! (36 + (i - 36)))" by blast
    with 3 show ?thesis by simp
  next
    case 4
    from g(8) len have "\<forall>n<2. lowerHex (h ! (53 + n))" by (simp add: list_all_length)
    moreover from 4 have "i - 53 < 2" by simp
    ultimately have "lowerHex (h ! (53 + (i - 53)))" by blast
    with 4 show ?thesis by simp
  qed
qed

text \<open>
  Claim C9. \<open>Extract\<close> accepts only lowercase hexadecimal digits: for every header with an
  uppercase hex character (\<open>A\<close> to \<open>F\<close>) at a position of the version group (0, 1), the traceid
  group (3 to 34), the spanid group (36 to 51) or the flags group (53, 54), the header
  fails the grammar match and \<open>Extract\<close> sets no remote span reference.
\<close>

theorem Extract_rejects_uppercase_hex:
  assumes "carrier_Get carrier traceparentHeader = h"
    and "i < length h" and "i \<in> {0, 1} \<union> {3..<35} \<union> {36..<52} \<union> {53, 54}"
    and "h ! i \<in> set ''ABCDEF''"
  shows "FindStringSubmatch h = [] \<and> extract' carrier = Inr emptySpanReference \<and>
         (\<exists>ctx'. Extract ctx carrier = Inr ctx' \<and>
            remoteSpanReference ctx' = remoteSpanReference ctx \<and>
            currentSpan ctx' = currentSpan ctx)"
proof -
  have m: "FindStringSubmatch h = []"
    using matched_group_chars [OF _ assms(3)] upper_not_lowerHex [OF assms(4)] by blast
  with assms(1) have e: "extract' carrier = Inr emptySpanReference"
    by (simp add: extract'_unmatched)
  from m e Extract_rejected_slots [OF e] show ?thesis by simp
qed

theorem Extract_rejects_uppercase_hex_witness:
  "''00-4BF92f3577b34da6a3ce929d0e0e4736-00f067aa0ba902b7-01'' ! 4 = CHR ''B''
   \<and> FindStringSubmatch ''00-4BF92f3577b34da6a3ce929d0e0e4736-00f067aa0ba902b7-01'' = []
   \<and> Extract Background
        (traceparentCarrier ''00-4BF92f3577b34da6a3ce929d0e0e4736-00f067aa0ba902b7-01'') =
       Inr Background"
proof -
  let ?h = "''00-4BF92f3577b34da6a3ce929d0e0e4736-00f067aa0ba902b7-01''"
  have a: "(4::nat) < length ?h" by simp
  have b: "(4::nat) \<in> {0, 1} \<union> {3..<35} \<union> {36..<52} \<union> {53, 54}" by simp
  have c: "?h ! 4 = CHR ''B''" by code_simp
  then have d: "?h ! 4 \<in> set ''ABCDEF''" by simp
  have st: "carrier_Get (traceparentCarrier ?h) tracestateHeader = []"
    by (simp add: traceparentCarrier_def carrier_Get_def carrier_Set_def tracestateHeader_def
        traceparentHeader_def)
  from Extract_rejects_uppercase_hex [OF Get_traceparentCarrier a b d, of Background]
  have m: "FindStringSubmatch ?h = []"
    and e: "extract' (traceparentCarrier ?h) = Inr emptySpanReference" by simp_all
  from Extract_rejected [OF e, of Background] st m c
  show ?thesis by (simp add: Background_def)
qed

end
